theory Spec2Isabelle
  imports Main "HOL-Library.Word"
begin

section \<open>JavaScript values\<close>

text \<open>
  A JavaScript string is a sequence of UTF-16 code units. The string literals of the
  source are ASCII and are written \<open>js ''...''\<close>; the bullet of the report renderer is
  the single code unit U+2022.
\<close>

type_synonym jschar = "16 word"
type_synonym jsstring = "jschar list"

definition js :: "string \<Rightarrow> jsstring" where
  "js s = map (\<lambda>c. of_nat (of_char c)) s"

text \<open>
  The values a parsed JSON body can hold, and \<open>undefined\<close>, which a read of a missing
  property gives. A number is kept as an integer: the code only passes numbers through
  and tests them for truthiness. An object is given by the list of its own properties,
  where the first entry of a key is the key's value. Property names are kept as byte
  strings.
\<close>

datatype jsval =
    Undefined
  | Null
  | Bool bool
  | Num int
  | Str jsstring
  | Arr "jsval list"
  | Obj "(string \<times> jsval) list"

text \<open>
  The exceptions: a \<open>TypeError\<close> of a read from \<open>null\<close> or \<open>undefined\<close> or of a call of
  something that is no function, and the error React throws for an object given as a
  child (\<open>Objects are not valid as a React child\<close>).
\<close>

datatype js_error = TypeError | InvalidChild

fun truthy :: "jsval \<Rightarrow> bool" where
  "truthy Undefined = False"
| "truthy Null = False"
| "truthy (Bool b) = b"
| "truthy (Num n) = (n \<noteq> 0)"
| "truthy (Str s) = (s \<noteq> [])"
| "truthy (Arr xs) = True"
| "truthy (Obj kvs) = True"

text \<open>\<open>a || b\<close>\<close>

definition or_else :: "jsval \<Rightarrow> jsval \<Rightarrow> jsval" where
  "or_else a b = (if truthy a then a else b)"

fun nullish :: "jsval \<Rightarrow> bool" where
  "nullish Undefined = True"
| "nullish Null = True"
| "nullish v = False"

text \<open>
  \<open>v.k\<close> on a value that is neither \<open>null\<close> nor \<open>undefined\<close> (on those the read throws,
  which the callers test with \<open>nullish\<close> first). Inherited properties other than \<open>length\<close>
  are not modelled: the code reads none of them from a JSON value.
\<close>

fun property :: "jsval \<Rightarrow> string \<Rightarrow> jsval" where
  "property (Obj kvs) k = (case map_of kvs k of Some v \<Rightarrow> v | None \<Rightarrow> Undefined)"
| "property (Str s) k = (if k = ''length'' then Num (int (length s)) else Undefined)"
| "property (Arr xs) k = (if k = ''length'' then Num (int (length xs)) else Undefined)"
| "property v k = Undefined"


section \<open>String operations\<close>

text \<open>
  \<open>String.prototype.trim\<close> removes white space and line terminators from both ends:
  TAB, LF, VT, FF, CR, SPACE, NBSP, U+1680, U+2000 to U+200A, LS, PS, U+202F, U+205F,
  U+3000 and U+FEFF.
\<close>

definition is_ws :: "jschar \<Rightarrow> bool" where
  "is_ws c \<longleftrightarrow>
     c = 0x9 \<or> c = 0xA \<or> c = 0xB \<or> c = 0xC \<or> c = 0xD \<or> c = 0x20 \<or> c = 0xA0 \<or>
     c = 0x1680 \<or> (0x2000 \<le> c \<and> c \<le> 0x200A) \<or> c = 0x2028 \<or> c = 0x2029 \<or>
     c = 0x202F \<or> c = 0x205F \<or> c = 0x3000 \<or> c = 0xFEFF"

definition trim :: "jsstring \<Rightarrow> jsstring" where
  "trim s = rev (dropWhile is_ws (rev (dropWhile is_ws s)))"

section \<open>The search component: state\<close>

record company_info_rec =
  industry :: jsval
  revenue :: jsval
  employees :: jsval

text \<open>
  The object a search handler pushes for one entry. A person's object has no
  \<open>edgar_data\<close>, status, \<open>ceo_name\<close> or \<open>ticker\<close> property; reading one gives
  \<open>undefined\<close>, which is the value the field holds here.
\<close>

record display_record =
  name :: jsval
  title :: jsval
  company :: jsval
  estimated_net_worth :: jsval
  linkedin_url :: jsval
  company_info :: company_info_rec
  financial_opportunities :: "jsstring list"
  conversation_starters :: "jsstring list"
  planning_needs :: "jsstring list"
  recent_news :: jsval
  data_sources :: jsval
  edgar_data :: jsval
  edgar_status :: jsval
  linkedin_status :: jsval
  companyresearch_status :: jsval
  ceo_name :: jsval
  ticker :: jsval

text \<open>The \<open>useState\<close> cells of \<open>SearchComponent\<close> that the search handlers and the rows use.\<close>

record ui_state =
  companyQuery :: jsstring
  personQuery :: jsstring
  companyResults :: "display_record list"
  personResults :: "display_record list"
  companyLoading :: bool
  personLoading :: bool
  companyError :: jsval
  personError :: jsval
  expandedCompanyIndex :: "nat option"

definition initial_state :: ui_state where
  "initial_state = \<lparr> companyQuery = [], personQuery = [], companyResults = [],
     personResults = [], companyLoading = False, personLoading = False,
     companyError = Str [], personError = Str [], expandedCompanyIndex = None \<rparr>"

text \<open>A \<open>fetch\<close> call: the URL and the two fields of the POSTed JSON body.\<close>

record request =
  url :: jsstring
  query :: jsstring
  search_type :: jsstring

definition search_url :: jsstring where
  "search_url = js ''http://127.0.0.1:5000/api/opportunities/search''"

section \<open>The search handlers up to the \<open>fetch\<close> call\<close>

text \<open>
  \<open>handleCompanySearch\<close> runs synchronously up to \<open>await fetch(...)\<close>. The result is
  the state after the setters it has called and the requests it has issued.
\<close>

definition handleCompanySearch_start :: "ui_state \<Rightarrow> ui_state \<times> request list" where
  "handleCompanySearch_start st =
     (if trim (companyQuery st) = []
      then (st\<lparr>companyError := Str (js ''Please enter a company name'')\<rparr>, [])
      else (st\<lparr>companyLoading := True, companyError := Str []\<rparr>,
            [\<lparr>url = search_url, query = companyQuery st, search_type = js ''company''\<rparr>]))"

definition handlePersonSearch_start :: "ui_state \<Rightarrow> ui_state \<times> request list" where
  "handlePersonSearch_start st =
     (if trim (personQuery st) = []
      then (st\<lparr>personError := Str (js ''Please enter a person name'')\<rparr>, [])
      else (st\<lparr>personLoading := True, personError := Str []\<rparr>,
            [\<lparr>url = search_url, query = personQuery st, search_type = js ''person''\<rparr>]))"

text \<open>
  \<open>handleKeyDown\<close>: the Enter key in a query field submits that field's search, whether
  or not a search is loading (the buttons are disabled while their search is loading).
\<close>

definition handleKeyDown :: "jsstring \<Rightarrow> jsstring \<Rightarrow> ui_state \<Rightarrow> ui_state \<times> request list" where
  "handleKeyDown key searchType st =
     (if key = js ''Enter''
      then (if searchType = js ''company'' then handleCompanySearch_start st
            else handlePersonSearch_start st)
      else (st, []))"

section \<open>The result transformers\<close>

text \<open>
  \<open>forEach\<close> with a callback that pushes one object per entry: the entries are visited in
  order, and the first callback that throws ends the loop.
\<close>

fun forEach_push :: "('a \<Rightarrow> js_error + 'b) \<Rightarrow> 'a list \<Rightarrow> js_error + 'b list" where
  "forEach_push f [] = Inr []"
| "forEach_push f (x # xs) =
     (case f x of
        Inl e \<Rightarrow> Inl e
      | Inr y \<Rightarrow> (case forEach_push f xs of Inl e \<Rightarrow> Inl e | Inr ys \<Rightarrow> Inr (y # ys)))"

text \<open>The object pushed for one entry of \<open>data.companies\<close>.\<close>

definition company_record :: "jsval \<Rightarrow> js_error + display_record" where
  "company_record c =
     (if nullish c then Inl TypeError
      else Inr \<lparr>
        name = property c ''name'',
        title = Str (js ''Company''),
        company = property c ''name'',
        estimated_net_worth = Str (js ''Company Data Available''),
        linkedin_url = or_else (property c ''linkedin_url'') (Str (js ''#'')),
        company_info = \<lparr>
          industry = or_else (property c ''industry'') (Str (js ''Unknown'')),
          revenue = or_else (property c ''estimated_revenue'') (Str (js ''Unknown'')),
          employees = or_else (property c ''employee_count'') (Str (js ''Unknown'')) \<rparr>,
        financial_opportunities =
          [js ''Business Succession Planning'', js ''Tax Optimization'',
           js ''Employee Benefit Plans''],
        conversation_starters =
          [js ''Recent company developments'', js ''Industry trends and market position'',
           js ''Technology investments and innovation''],
        planning_needs =
          [js ''Estate Planning'', js ''Retirement Planning'', js ''Risk Management''],
        recent_news = or_else (property c ''recent_news'') (Arr []),
        data_sources = or_else (property c ''data_sources'') (Arr []),
        edgar_data = or_else (property c ''edgar_data'') Null,
        edgar_status = or_else (property c ''edgar_status'') Null,
        linkedin_status = or_else (property c ''linkedin_status'') Null,
        companyresearch_status = or_else (property c ''companyresearch_status'') Null,
        ceo_name = or_else (property c ''ceo'') Null,
        ticker = or_else (property c ''ticker'') Null \<rparr>)"

text \<open>The object pushed for one entry of \<open>data.individuals\<close>.\<close>

definition person_record :: "jsval \<Rightarrow> js_error + display_record" where
  "person_record p =
     (if nullish p then Inl TypeError
      else Inr \<lparr>
        name = property p ''name'',
        title = or_else (property p ''title'') (Str (js ''Business Executive'')),
        company = or_else (property p ''company'') (Str (js ''Various'')),
        estimated_net_worth =
          or_else (property p ''estimated_net_worth'') (Str (js ''Confidential'')),
        linkedin_url = or_else (property p ''linkedin_url'') (Str (js ''#'')),
        company_info = \<lparr>
          industry = Str (js ''Technology''),
          revenue = Str (js ''Confidential''),
          employees = Str (js ''N/A'') \<rparr>,
        financial_opportunities =
          [js ''Personal Wealth Management'', js ''Tax Planning'', js ''Investment Advisory''],
        conversation_starters =
          [js ''Recent business developments'', js ''Industry leadership insights'',
           js ''Strategic planning opportunities''],
        planning_needs =
          [js ''Estate Planning'', js ''Retirement Planning'', js ''Risk Management''],
        recent_news = Arr [],
        data_sources = or_else (property p ''data_sources'') (Arr []),
        edgar_data = Undefined,
        edgar_status = Undefined,
        linkedin_status = Undefined,
        companyresearch_status = Undefined,
        ceo_name = Undefined,
        ticker = Undefined \<rparr>)"

text \<open>
  The parsed body of a search response, as the backend's contract gives it: an object
  whose \<open>companies\<close> and \<open>individuals\<close>, when present, are arrays (\<open>None\<close> is an absent
  or \<open>null\<close> property), and whose \<open>error\<close> is any value.
\<close>

record search_body =
  companies :: "jsval list option"
  individuals :: "jsval list option"
  error :: jsval

text \<open>\<open>transformedResults\<close> at the call of \<open>setCompanyResults\<close> and of \<open>setPersonResults\<close>.\<close>

definition company_transformedResults :: "search_body \<Rightarrow> js_error + display_record list" where
  "company_transformedResults data =
     (case companies data of
        None \<Rightarrow> Inr []
      | Some cs \<Rightarrow> if length cs > 0 then forEach_push company_record cs else Inr [])"

definition person_transformedResults :: "search_body \<Rightarrow> js_error + display_record list" where
  "person_transformedResults data =
     (case individuals data of
        None \<Rightarrow> Inr []
      | Some ps \<Rightarrow> if length ps > 0 then forEach_push person_record ps else Inr [])"

section \<open>The search handlers after the \<open>fetch\<close> call\<close>

text \<open>
  What the awaited calls give: \<open>Rejected\<close> when \<open>fetch\<close> or \<open>response.json()\<close> rejects,
  else \<open>response.ok\<close> and the parsed body.
\<close>

datatype fetch_result = Rejected | Resolved bool search_body

definition connect_failed :: jsval where
  "connect_failed = Str (js ''Failed to connect to server. Make sure the backend is running.'')"

text \<open>
  The rest of \<open>handleCompanySearch\<close>, run when the response of one request arrives, on
  the state of that moment. It calls setters only; an exception in the \<open>try\<close> block goes
  to \<open>catch\<close>, and \<open>finally\<close> clears the loading flag.
\<close>

definition handleCompanySearch_finish :: "fetch_result \<Rightarrow> ui_state \<Rightarrow> ui_state" where
  "handleCompanySearch_finish res st =
     (case res of
        Rejected \<Rightarrow> st\<lparr>companyError := connect_failed, companyLoading := False\<rparr>
      | Resolved ok data \<Rightarrow>
          if ok then
            (case company_transformedResults data of
               Inr rs \<Rightarrow> st\<lparr>companyResults := rs, companyLoading := False\<rparr>
             | Inl e \<Rightarrow> st\<lparr>companyError := connect_failed, companyLoading := False\<rparr>)
          else st\<lparr>companyError := or_else (error data) (Str (js ''Company search failed'')),
                  companyLoading := False\<rparr>)"

definition handlePersonSearch_finish :: "fetch_result \<Rightarrow> ui_state \<Rightarrow> ui_state" where
  "handlePersonSearch_finish res st =
     (case res of
        Rejected \<Rightarrow> st\<lparr>personError := connect_failed, personLoading := False\<rparr>
      | Resolved ok data \<Rightarrow>
          if ok then
            (case person_transformedResults data of
               Inr rs \<Rightarrow> st\<lparr>personResults := rs, personLoading := False\<rparr>
             | Inl e \<Rightarrow> st\<lparr>personError := connect_failed, personLoading := False\<rparr>)
          else st\<lparr>personError := or_else (error data) (Str (js ''Person search failed'')),
                  personLoading := False\<rparr>)"

text \<open>\<open>onChange\<close> of the company query field.\<close>

definition setCompanyQuery :: "jsstring \<Rightarrow> ui_state \<Rightarrow> ui_state" where
  "setCompanyQuery q st = st\<lparr>companyQuery := q\<rparr>"




section \<open>The company rows\<close>

text \<open>
  \<open>getCEOName\<close>. A result object has no \<open>executives\<close> property, so the search through
  the executives is skipped and the second test of \<open>ceo_name\<close> repeats the first.
\<close>

definition getCEOName :: "display_record \<Rightarrow> jsval" where
  "getCEOName result =
     (if truthy (ceo_name result) then ceo_name result
      else if truthy (ceo_name result) then ceo_name result
      else Str (js ''Unknown''))"

text \<open>\<open>startsWith\<close> and \<open>includes\<close> of a string (the latter under the name \<open>includes_str\<close>).\<close>

fun startsWith :: "jsstring \<Rightarrow> jsstring \<Rightarrow> bool" where
  "startsWith s [] = True"
| "startsWith [] (p # ps) = False"
| "startsWith (c # cs) (p # ps) = (c = p \<and> startsWith cs ps)"

fun includes_str :: "jsstring \<Rightarrow> jsstring \<Rightarrow> bool" where
  "includes_str [] sub = (sub = [])"
| "includes_str (c # cs) sub = (startsWith (c # cs) sub \<or> includes_str cs sub)"

text \<open>
  \<open>toLowerCase\<close>: the letters A to Z are lowered and every other code unit is kept.
  Outside ASCII the lower-case mapping gives an ASCII letter only for U+0130 (an \<open>i\<close>
  followed by U+0307) and for U+212A (a \<open>k\<close>); neither can be part of an occurrence of
  one of the four keywords tested below, so the tests come out as in the source.
\<close>

definition toLowerCase :: "jsstring \<Rightarrow> jsstring" where
  "toLowerCase s = map (\<lambda>c. if 0x41 \<le> c \<and> c \<le> 0x5A then c + 0x20 else c) s"

definition isError :: "jsstring \<Rightarrow> bool" where
  "isError status \<longleftrightarrow>
     includes_str (toLowerCase status) (js ''error'') \<or>
     includes_str (toLowerCase status) (js ''failed'') \<or>
     includes_str (toLowerCase status) (js ''not found'') \<or>
     includes_str (toLowerCase status) (js ''forbidden'')"

text \<open>
  The banner of \<open>renderStatusMessage\<close>: its class is \<open>error\<close> or \<open>warning\<close>. A status that is
  truthy and not a string has no \<open>toLowerCase\<close> method, and the call throws.
\<close>

record status_message =
  error_class :: bool
  status_type :: jsstring
  status_text :: jsstring

definition renderStatusMessage :: "jsval \<Rightarrow> jsstring \<Rightarrow> js_error + status_message option" where
  "renderStatusMessage status type =
     (if \<not> truthy status then Inr None
      else (case status of
              Str s \<Rightarrow> Inr (Some \<lparr>error_class = isError s, status_type = type, status_text = s\<rparr>)
            | _ \<Rightarrow> Inl TypeError))"

text \<open>The expanded profile below a row: its banners and whether the financials button shows.\<close>

record expanded_profile =
  status_messages :: "status_message option list"
  view_financials_btn :: bool

definition company_profile_expanded :: "display_record \<Rightarrow> js_error + expanded_profile" where
  "company_profile_expanded result =
     (case renderStatusMessage (edgar_status result) (js ''SEC EDGAR'') of
        Inl e \<Rightarrow> Inl e
      | Inr m1 \<Rightarrow>
     (case renderStatusMessage (linkedin_status result) (js ''LinkedIn'') of
        Inl e \<Rightarrow> Inl e
      | Inr m2 \<Rightarrow>
     (case renderStatusMessage (companyresearch_status result) (js ''Company Research'') of
        Inl e \<Rightarrow> Inl e
      | Inr m3 \<Rightarrow>
          Inr \<lparr>status_messages = [m1, m2, m3],
               view_financials_btn =
                 (truthy (company result) \<and> company result \<noteq> Str (js ''Various''))\<rparr>)))"

text \<open>
  One row of \<open>renderCompanyRows\<close>: the class flags, the cells, the value its \<open>onClick\<close>
  passes to \<open>setExpandedCompanyIndex\<close>, and the profile when the row is expanded. The
  cells hold the values as the function hands them to React; what React does with a cell
  that is an object is not part of the row.
\<close>

record company_row =
  row_expanded :: bool
  row_has_errors :: bool
  row_name :: jsval
  row_ticker :: jsval
  row_ceo :: jsval
  row_onClick :: "nat option"
  row_profile :: "expanded_profile option"

definition company_row_of :: "nat option \<Rightarrow> nat \<times> display_record \<Rightarrow> js_error + company_row" where
  "company_row_of expanded ir =
     (let index = fst ir; result = snd ir;
          isExpanded = (expanded = Some index);
          hasErrors = or_else (or_else (edgar_status result) (linkedin_status result))
                        (companyresearch_status result);
          row = \<lparr>row_expanded = isExpanded, row_has_errors = truthy hasErrors,
                 row_name = name result, row_ticker = ticker result,
                 row_ceo = getCEOName result,
                 row_onClick = (if isExpanded then None else Some index),
                 row_profile = None\<rparr>
      in if isExpanded then
           (case company_profile_expanded result of
              Inl e \<Rightarrow> Inl e
            | Inr p \<Rightarrow> Inr (row\<lparr>row_profile := Some p\<rparr>))
         else Inr row)"

definition renderCompanyRows :: "ui_state \<Rightarrow> js_error + company_row list" where
  "renderCompanyRows st =
     forEach_push (company_row_of (expandedCompanyIndex st))
       (enumerate 0 (filter (\<lambda>result. title result = Str (js ''Company'')) (companyResults st)))"

text \<open>A click on the row of index \<open>i\<close> of the rendered rows runs that row's \<open>onClick\<close>.\<close>

definition click_company_row :: "nat \<Rightarrow> ui_state \<Rightarrow> ui_state" where
  "click_company_row i st =
     (case renderCompanyRows st of
        Inl e \<Rightarrow> st
      | Inr rows \<Rightarrow>
          if i < length rows then st\<lparr>expandedCompanyIndex := row_onClick (rows ! i)\<rparr> else st)"

section \<open>The report text\<close>

definition bullet :: jschar where
  "bullet = 0x2022"

definition newline :: jschar where
  "newline = 0xA"

text \<open>\<open>split('\n')\<close>: \<open>cur\<close> is the piece read so far.\<close>

fun split_from :: "jsstring \<Rightarrow> jsstring \<Rightarrow> jsstring list" where
  "split_from cur [] = [cur]"
| "split_from cur (c # cs) =
     (if c = newline then cur # split_from [] cs else split_from (cur @ [c]) cs)"

definition split_lines :: "jsstring \<Rightarrow> jsstring list" where
  "split_lines s = split_from [] s"

datatype report_element = BulletPoint jsstring | Paragraph jsstring

text \<open>The callback of \<open>map\<close> in \<open>renderReport\<close>; \<open>None\<close> is \<open>null\<close>.\<close>

definition report_line :: "jsstring \<Rightarrow> report_element option" where
  "report_line paragraph =
     (if trim paragraph = [] then None
      else if startsWith paragraph [bullet] then Some (BulletPoint paragraph)
      else Some (Paragraph paragraph))"

text \<open>React renders nothing for a \<open>null\<close> child.\<close>

fun rendered_children :: "'a option list \<Rightarrow> 'a list" where
  "rendered_children [] = []"
| "rendered_children (None # xs) = rendered_children xs"
| "rendered_children (Some x # xs) = x # rendered_children xs"

datatype response_text = LlmMessage "report_element list" | LoadingMessage

text \<open>
  The \<open>response-text\<close> element of \<open>renderReport\<close>, from \<open>reportData.llm_response\<close>. A truthy
  value that is not a string has no \<open>split\<close> method.
\<close>

definition render_response_text :: "jsval \<Rightarrow> js_error + response_text" where
  "render_response_text llm_response =
     (if truthy llm_response then
        (case llm_response of
           Str s \<Rightarrow> Inr (LlmMessage (rendered_children (map report_line (split_lines s))))
         | _ \<Rightarrow> Inl TypeError)
      else Inr LoadingMessage)"

text \<open>The elements rendered from lines of the text.\<close>

fun message_elements :: "response_text \<Rightarrow> report_element list" where
  "message_elements (LlmMessage es) = es"
| "message_elements LoadingMessage = []"

text \<open>
  \<open>renderReport\<close>, from \<open>reportData\<close>: nothing when it is falsy; else the response text
  and the footer, which holds the date of the report (shown in the locale's format) and
  the data sources, joined with commas. A \<open>data_sources\<close> that is not an array has no
  \<open>join\<close> method.
\<close>

record report_view =
  response_text_of :: response_text
  report_generated_of :: jsval
  data_sources_of :: "jsval list"

definition renderReport :: "jsval \<Rightarrow> js_error + report_view option" where
  "renderReport reportData =
     (if \<not> truthy reportData then Inr None
      else (case render_response_text (property reportData ''llm_response'') of
              Inl e \<Rightarrow> Inl e
            | Inr t \<Rightarrow>
                (case property reportData ''data_sources'' of
                   Arr ds \<Rightarrow>
                     Inr (Some \<lparr>response_text_of = t,
                                report_generated_of = property reportData ''report_generated'',
                                data_sources_of = ds\<rparr>)
                 | _ \<Rightarrow> Inl TypeError)))"

text \<open>\<open>join('\n')\<close>, the inverse of the split, to say what the split does.\<close>

fun join_lines :: "jsstring list \<Rightarrow> jsstring" where
  "join_lines [] = []"
| "join_lines [l] = l"
| "join_lines (l # m # ls) = l @ newline # join_lines (m # ls)"

section \<open>The financial statements\<close>
















section \<open>Scenarios and the fallback table\<close>

text \<open>
  The fields of a record \<open>r\<close> built from a company entry \<open>e\<close>: the fixed fields, and for
  each copied field its fallback when the entry lacks it (the read gives \<open>undefined\<close>)
  and the entry's value when that is truthy.
\<close>

definition company_fallbacks :: "jsval \<Rightarrow> display_record \<Rightarrow> bool" where
  "company_fallbacks e r \<longleftrightarrow>
     name r = property e ''name'' \<and> company r = property e ''name'' \<and>
     title r = Str (js ''Company'') \<and>
     length (financial_opportunities r) = 3 \<and> length (conversation_starters r) = 3 \<and>
     length (planning_needs r) = 3 \<and>
     (property e ''linkedin_url'' = Undefined \<longrightarrow> linkedin_url r = Str (js ''#'')) \<and>
     (property e ''industry'' = Undefined \<longrightarrow> industry (company_info r) = Str (js ''Unknown'')) \<and>
     (property e ''estimated_revenue'' = Undefined \<longrightarrow>
        revenue (company_info r) = Str (js ''Unknown'')) \<and>
     (property e ''employee_count'' = Undefined \<longrightarrow>
        employees (company_info r) = Str (js ''Unknown'')) \<and>
     (property e ''recent_news'' = Undefined \<longrightarrow> recent_news r = Arr []) \<and>
     (property e ''data_sources'' = Undefined \<longrightarrow> data_sources r = Arr []) \<and>
     (property e ''edgar_data'' = Undefined \<longrightarrow> edgar_data r = Null) \<and>
     (property e ''edgar_status'' = Undefined \<longrightarrow> edgar_status r = Null) \<and>
     (property e ''linkedin_status'' = Undefined \<longrightarrow> linkedin_status r = Null) \<and>
     (property e ''companyresearch_status'' = Undefined \<longrightarrow> companyresearch_status r = Null) \<and>
     (property e ''ceo'' = Undefined \<longrightarrow> ceo_name r = Null) \<and>
     (property e ''ticker'' = Undefined \<longrightarrow> ticker r = Null) \<and>
     (truthy (property e ''linkedin_url'') \<longrightarrow> linkedin_url r = property e ''linkedin_url'') \<and>
     (truthy (property e ''industry'') \<longrightarrow> industry (company_info r) = property e ''industry'') \<and>
     (truthy (property e ''estimated_revenue'') \<longrightarrow>
        revenue (company_info r) = property e ''estimated_revenue'') \<and>
     (truthy (property e ''employee_count'') \<longrightarrow>
        employees (company_info r) = property e ''employee_count'') \<and>
     (truthy (property e ''recent_news'') \<longrightarrow> recent_news r = property e ''recent_news'') \<and>
     (truthy (property e ''data_sources'') \<longrightarrow> data_sources r = property e ''data_sources'') \<and>
     (truthy (property e ''edgar_data'') \<longrightarrow> edgar_data r = property e ''edgar_data'') \<and>
     (truthy (property e ''edgar_status'') \<longrightarrow> edgar_status r = property e ''edgar_status'') \<and>
     (truthy (property e ''linkedin_status'') \<longrightarrow>
        linkedin_status r = property e ''linkedin_status'') \<and>
     (truthy (property e ''companyresearch_status'') \<longrightarrow>
        companyresearch_status r = property e ''companyresearch_status'') \<and>
     (truthy (property e ''ceo'') \<longrightarrow> ceo_name r = property e ''ceo'') \<and>
     (truthy (property e ''ticker'') \<longrightarrow> ticker r = property e ''ticker'')"

definition person_fallbacks :: "jsval \<Rightarrow> display_record \<Rightarrow> bool" where
  "person_fallbacks e r \<longleftrightarrow>
     name r = property e ''name'' \<and>
     length (financial_opportunities r) = 3 \<and> length (conversation_starters r) = 3 \<and>
     length (planning_needs r) = 3 \<and>
     (property e ''title'' = Undefined \<longrightarrow> title r = Str (js ''Business Executive'')) \<and>
     (property e ''company'' = Undefined \<longrightarrow> company r = Str (js ''Various'')) \<and>
     (property e ''estimated_net_worth'' = Undefined \<longrightarrow>
        estimated_net_worth r = Str (js ''Confidential'')) \<and>
     (property e ''linkedin_url'' = Undefined \<longrightarrow> linkedin_url r = Str (js ''#'')) \<and>
     (property e ''data_sources'' = Undefined \<longrightarrow> data_sources r = Arr []) \<and>
     (truthy (property e ''title'') \<longrightarrow> title r = property e ''title'') \<and>
     (truthy (property e ''company'') \<longrightarrow> company r = property e ''company'') \<and>
     (truthy (property e ''estimated_net_worth'') \<longrightarrow>
        estimated_net_worth r = property e ''estimated_net_worth'') \<and>
     (truthy (property e ''linkedin_url'') \<longrightarrow> linkedin_url r = property e ''linkedin_url'') \<and>
     (truthy (property e ''data_sources'') \<longrightarrow> data_sources r = property e ''data_sources'')"

text \<open>The response \<open>{companies: [{name: "Acme Corp", ticker: "ACM"}]}\<close>.\<close>

definition acme_response :: search_body where
  "acme_response =
     \<lparr>companies = Some [Obj [(''name'', Str (js ''Acme Corp'')), (''ticker'', Str (js ''ACM''))]],
      individuals = None, error = Undefined\<rparr>"

text \<open>A company search for \<open>Acme\<close> from the initial state, answered by that response.\<close>

definition acme_search :: ui_state where
  "acme_search =
     (let (s1, requests) = handleCompanySearch_start (setCompanyQuery (js ''Acme'') initial_state)
      in fold (\<lambda>r. handleCompanySearch_finish (Resolved True acme_response)) requests s1)"

text \<open>
  A search that finds three companies, a click on the third row, and a second search
  that finds one company.
\<close>

definition named_companies :: "string list \<Rightarrow> search_body" where
  "named_companies ns =
     \<lparr>companies = Some (map (\<lambda>n. Obj [(''name'', Str (js n))]) ns),
      individuals = None, error = Undefined\<rparr>"

definition three_companies_shown :: ui_state where
  "three_companies_shown =
     handleCompanySearch_finish
       (Resolved True (named_companies [''Alpha'', ''Beta'', ''Gamma''])) initial_state"

definition three_then_one :: ui_state where
  "three_then_one =
     handleCompanySearch_finish (Resolved True (named_companies [''Delta'']))
       (click_company_row 2 three_companies_shown)"

text \<open>The results that get a row: \<open>renderCompanyRows\<close> numbers them from 0.\<close>

definition company_rows_shown :: "ui_state \<Rightarrow> display_record list" where
  "company_rows_shown st =
     filter (\<lambda>result. title result = Str (js ''Company'')) (companyResults st)"





text \<open>A search that finds a company whose filing lookup was rate limited.\<close>

definition rate_limited_shown :: ui_state where
  "rate_limited_shown =
     handleCompanySearch_finish
       (Resolved True
          \<lparr>companies = Some [Obj [(''name'', Str (js ''Acme Corp'')),
                                  (''edgar_status'', Str (js ''Rate limited''))],
                             Obj [(''name'', Str (js ''Beta Inc''))]],
           individuals = None, error = Undefined\<rparr>)
       initial_state"

text \<open>The report text \<open>"\<bullet> Point one\nSecond paragraph"\<close>.\<close>

definition point_one_text :: jsstring where
  "point_one_text = bullet # js '' Point one'' @ newline # js ''Second paragraph''"

text \<open>The report that holds this text, a date and the data source \<open>SEC\<close>.\<close>

definition point_one_report :: jsval where
  "point_one_report =
     Obj [(''llm_response'', Str point_one_text),
          (''report_generated'', Str (js ''2024-01-01T00:00:00Z'')),
          (''data_sources'', Arr [Str (js ''SEC'')])]"

section \<open>Facts about strings\<close>

lemma js_Nil [simp]: "js [] = []"
  by (simp add: js_def)

lemma js_eq_Nil [simp]: "js s = [] \<longleftrightarrow> s = []"
  by (simp add: js_def)

lemma dropWhile_all_iff: "(\<forall>x\<in>set (dropWhile P xs). P x) \<longleftrightarrow> (\<forall>x\<in>set xs. P x)"
  by (induction xs) auto

lemma trim_empty_iff: "trim s = [] \<longleftrightarrow> list_all is_ws s"
  by (simp add: trim_def dropWhile_eq_Nil_conv dropWhile_all_iff list_all_iff)

lemma or_else_Undefined [simp]: "or_else Undefined b = b"
  by (simp add: or_else_def)

lemma or_else_truthy: "truthy a \<Longrightarrow> or_else a b = a"
  by (simp add: or_else_def)

section \<open>Facts about the loops\<close>

lemma forEach_push_Inr:
  "forEach_push f xs = Inr ys \<Longrightarrow>
     length ys = length xs \<and> (\<forall>i<length xs. f (xs ! i) = Inr (ys ! i))"
proof (induction xs arbitrary: ys)
  case Nil
  then show ?case by simp
next
  case (Cons x xs)
  from Cons.prems obtain y zs where fx: "f x = Inr y" and rest: "forEach_push f xs = Inr zs"
    and ys: "ys = y # zs"
    by (auto split: sum.splits)
  from Cons.IH [OF rest] have "length zs = length xs"
    and nth: "\<forall>i<length xs. f (xs ! i) = Inr (zs ! i)" by simp_all
  then show ?case using fx ys by (auto simp: nth_Cons split: nat.splits)
qed

lemma forEach_push_total:
  "(\<forall>x\<in>set xs. \<exists>y. f x = Inr y) \<Longrightarrow> \<exists>ys. forEach_push f xs = Inr ys"
  by (induction xs) auto

lemma forEach_push_Inl:
  "forEach_push f xs = Inl e \<Longrightarrow> \<exists>x\<in>set xs. f x = Inl e"
  by (induction xs) (auto split: sum.splits)

section \<open>Submitting a search\<close>

text \<open>
  Claim C6. A company or person search whose query is empty or holds white space only
  (that is, whose trimmed query is empty) issues no request and sets the validation error
  of its lane before the handler returns; with any other query the handler issues exactly
  one request, which carries the query as typed, and sets the loading flag. The Enter key
  in a query field submits through the same handler as the button.
\<close>

theorem blank_query_issues_no_request:
  "(trim (companyQuery st) = [] \<longleftrightarrow> list_all is_ws (companyQuery st)) \<and>
   (trim (personQuery st) = [] \<longleftrightarrow> list_all is_ws (personQuery st)) \<and>
   (list_all is_ws (companyQuery st) \<longrightarrow>
      handleCompanySearch_start st =
        (st\<lparr>companyError := Str (js ''Please enter a company name'')\<rparr>, [])) \<and>
   (\<not> list_all is_ws (companyQuery st) \<longrightarrow>
      handleCompanySearch_start st =
        (st\<lparr>companyLoading := True, companyError := Str []\<rparr>,
         [\<lparr>url = search_url, query = companyQuery st, search_type = js ''company''\<rparr>])) \<and>
   (list_all is_ws (personQuery st) \<longrightarrow>
      handlePersonSearch_start st =
        (st\<lparr>personError := Str (js ''Please enter a person name'')\<rparr>, [])) \<and>
   (\<not> list_all is_ws (personQuery st) \<longrightarrow>
      handlePersonSearch_start st =
        (st\<lparr>personLoading := True, personError := Str []\<rparr>,
         [\<lparr>url = search_url, query = personQuery st, search_type = js ''person''\<rparr>])) \<and>
   handleKeyDown (js ''Enter'') (js ''company'') st = handleCompanySearch_start st \<and>
   handleKeyDown (js ''Enter'') (js ''person'') st = handlePersonSearch_start st"
proof -
  have "js ''person'' \<noteq> js ''company''"
    by (simp add: js_def)
  then show ?thesis
    by (simp add: handleCompanySearch_start_def handlePersonSearch_start_def trim_empty_iff
        handleKeyDown_def)
qed

theorem blank_query_issues_no_request_witness:
  "snd (handleCompanySearch_start (initial_state\<lparr>companyQuery := js ''  ''\<rparr>)) = [] \<and>
   companyError (fst (handleCompanySearch_start (initial_state\<lparr>companyQuery := js ''  ''\<rparr>)))
     = Str (js ''Please enter a company name'') \<and>
   snd (handlePersonSearch_start (initial_state\<lparr>companyQuery := js ''  ''\<rparr>)) = [] \<and>
   map query (snd (handleCompanySearch_start (initial_state\<lparr>companyQuery := js '' Acme''\<rparr>)))
     = [js '' Acme'']"
  using blank_query_issues_no_request [of "initial_state\<lparr>companyQuery := js ''  ''\<rparr>"]
    blank_query_issues_no_request [of "initial_state\<lparr>companyQuery := js '' Acme''\<rparr>"]
  by (simp add: js_def is_ws_def initial_state_def)

section \<open>The transformers\<close>

lemma company_record_total: "\<not> nullish e \<Longrightarrow> \<exists>r. company_record e = Inr r"
  by (simp add: company_record_def)

lemma person_record_total: "\<not> nullish e \<Longrightarrow> \<exists>r. person_record e = Inr r"
  by (simp add: person_record_def)

lemma company_record_fallbacks: "company_record e = Inr r \<Longrightarrow> company_fallbacks e r"
  by (auto simp: company_record_def company_fallbacks_def or_else_truthy split: if_splits)

lemma person_record_fallbacks: "person_record e = Inr r \<Longrightarrow> person_fallbacks e r"
  by (auto simp: person_record_def person_fallbacks_def or_else_truthy split: if_splits)

lemma company_record_Inl: "company_record e = Inl err \<longleftrightarrow> nullish e \<and> err = TypeError"
  by (auto simp: company_record_def)

lemma person_record_Inl: "person_record e = Inl err \<longleftrightarrow> nullish e \<and> err = TypeError"
  by (auto simp: person_record_def)

lemma company_results_Some:
  "company_transformedResults \<lparr>companies = Some cs, individuals = i, error = x\<rparr> =
     forEach_push company_record cs"
  by (cases cs) (simp_all add: company_transformedResults_def)

lemma person_results_Some:
  "person_transformedResults \<lparr>companies = c, individuals = Some ps, error = x\<rparr> =
     forEach_push person_record ps"
  by (cases ps) (simp_all add: person_transformedResults_def)

lemma company_results_of_entries:
  "(\<forall>e\<in>set cs. \<not> nullish e) \<longrightarrow>
     (\<exists>rs. forEach_push company_record cs = Inr rs \<and> length rs = length cs \<and>
        (\<forall>n<length cs. company_fallbacks (cs ! n) (rs ! n)))"
proof
  assume "\<forall>e\<in>set cs. \<not> nullish e"
  then have "\<forall>e\<in>set cs. \<exists>r. company_record e = Inr r"
    by (simp add: company_record_total)
  then obtain rs where rs: "forEach_push company_record cs = Inr rs"
    using forEach_push_total by blast
  from forEach_push_Inr [OF rs] have len: "length rs = length cs"
    and nth: "\<forall>n<length cs. company_record (cs ! n) = Inr (rs ! n)" by simp_all
  with rs show "\<exists>rs. forEach_push company_record cs = Inr rs \<and> length rs = length cs \<and>
      (\<forall>n<length cs. company_fallbacks (cs ! n) (rs ! n))"
    by (auto intro: company_record_fallbacks)
qed

lemma person_results_of_entries:
  "(\<forall>e\<in>set ps. \<not> nullish e) \<longrightarrow>
     (\<exists>rs. forEach_push person_record ps = Inr rs \<and> length rs = length ps \<and>
        (\<forall>n<length ps. person_fallbacks (ps ! n) (rs ! n)))"
proof
  assume "\<forall>e\<in>set ps. \<not> nullish e"
  then have "\<forall>e\<in>set ps. \<exists>r. person_record e = Inr r"
    by (simp add: person_record_total)
  then obtain rs where rs: "forEach_push person_record ps = Inr rs"
    using forEach_push_total by blast
  from forEach_push_Inr [OF rs] have len: "length rs = length ps"
    and nth: "\<forall>n<length ps. person_record (ps ! n) = Inr (rs ! n)" by simp_all
  with rs show "\<exists>rs. forEach_push person_record ps = Inr rs \<and> length rs = length ps \<and>
      (\<forall>n<length ps. person_fallbacks (ps ! n) (rs ! n))"
    by (auto intro: person_record_fallbacks)
qed

lemma company_results_null_entry:
  "(\<exists>e\<in>set cs. nullish e) \<longrightarrow> forEach_push company_record cs = Inl TypeError"
proof
  assume null: "\<exists>e\<in>set cs. nullish e"
  show "forEach_push company_record cs = Inl TypeError"
  proof (cases "forEach_push company_record cs")
    case (Inl err)
    from forEach_push_Inl [OF Inl] have "err = TypeError"
      by (auto simp: company_record_Inl)
    with Inl show ?thesis by simp
  next
    case (Inr rs)
    from null obtain n where "n < length cs" "nullish (cs ! n)"
      by (auto simp: in_set_conv_nth)
    with forEach_push_Inr [OF Inr] show ?thesis
      by (auto simp: company_record_def)
  qed
qed

lemma person_results_null_entry:
  "(\<exists>e\<in>set ps. nullish e) \<longrightarrow> forEach_push person_record ps = Inl TypeError"
proof
  assume null: "\<exists>e\<in>set ps. nullish e"
  show "forEach_push person_record ps = Inl TypeError"
  proof (cases "forEach_push person_record ps")
    case (Inl err)
    from forEach_push_Inl [OF Inl] have "err = TypeError"
      by (auto simp: person_record_Inl)
    with Inl show ?thesis by simp
  next
    case (Inr rs)
    from null obtain n where "n < length ps" "nullish (ps ! n)"
      by (auto simp: in_set_conv_nth)
    with forEach_push_Inr [OF Inr] show ?thesis
      by (auto simp: person_record_def)
  qed
qed

text \<open>
  Claim C5 (amended). The transformers keep the length and are total on the arrays that
  hold no \<open>null\<close> entry: for every array of company entries and every array of individual
  entries with no \<open>null\<close> (or \<open>undefined\<close>) entry, the empty array too, and whatever
  fields the entries lack, the handler gets an array of records of the same length
  without an exception. The record at each position copies the name, holds the fixed
  lists of three, holds the entry's value of every copied field whose value is truthy,
  and holds the fallback of every field the entry lacks: \<open>#\<close>, \<open>Unknown\<close>, \<open>Various\<close>,
  \<open>Confidential\<close>, \<open>Business Executive\<close> or the empty list, and \<open>null\<close> for the filing data,
  the statuses, the CEO and the ticker. On an array with a \<open>null\<close> entry the transformer
  throws a \<open>TypeError\<close> and yields no records.
\<close>

theorem transformer_total_length_preserving:
  "((\<forall>e\<in>set cs. \<not> nullish e) \<longrightarrow>
      (\<exists>rs. company_transformedResults \<lparr>companies = Some cs, individuals = i, error = x\<rparr> = Inr rs \<and>
         length rs = length cs \<and> (\<forall>n<length cs. company_fallbacks (cs ! n) (rs ! n)))) \<and>
   ((\<exists>e\<in>set cs. nullish e) \<longrightarrow>
      company_transformedResults \<lparr>companies = Some cs, individuals = i, error = x\<rparr> =
        Inl TypeError) \<and>
   ((\<forall>e\<in>set ps. \<not> nullish e) \<longrightarrow>
      (\<exists>rs. person_transformedResults \<lparr>companies = c, individuals = Some ps, error = y\<rparr> = Inr rs \<and>
         length rs = length ps \<and> (\<forall>n<length ps. person_fallbacks (ps ! n) (rs ! n)))) \<and>
   ((\<exists>e\<in>set ps. nullish e) \<longrightarrow>
      person_transformedResults \<lparr>companies = c, individuals = Some ps, error = y\<rparr> =
        Inl TypeError)"
  unfolding company_results_Some person_results_Some
  using company_results_of_entries [of cs] company_results_null_entry [of cs]
    person_results_of_entries [of ps] person_results_null_entry [of ps]
  by blast

theorem transformer_total_length_preserving_witness:
  "(\<exists>rs. company_transformedResults
            \<lparr>companies = Some [Obj [(''name'', Str (js ''Acme Corp'')), (''industry'', Str (js ''Tools''))],
                               Obj []],
             individuals = None, error = Undefined\<rparr> = Inr rs \<and>
          length rs = 2 \<and> linkedin_url (rs ! 1) = Str (js ''#'') \<and>
          industry (company_info (rs ! 0)) = Str (js ''Tools'') \<and>
          industry (company_info (rs ! 1)) = Str (js ''Unknown'') \<and> recent_news (rs ! 0) = Arr []) \<and>
   (\<exists>rs. person_transformedResults
            \<lparr>companies = None, individuals = Some [Obj [(''name'', Str (js ''Jane Doe''))]],
             error = Undefined\<rparr> = Inr rs \<and>
          length rs = 1 \<and> company (rs ! 0) = Str (js ''Various'') \<and>
          estimated_net_worth (rs ! 0) = Str (js ''Confidential'')) \<and>
   company_transformedResults \<lparr>companies = Some [], individuals = None, error = Undefined\<rparr> = Inr [] \<and>
   person_transformedResults
     \<lparr>companies = None, individuals = Some [Obj [], Null], error = Undefined\<rparr> = Inl TypeError"
  using transformer_total_length_preserving
    [of "[Obj [(''name'', Str (js ''Acme Corp'')), (''industry'', Str (js ''Tools''))], Obj []]"
        None Undefined "[Obj [(''name'', Str (js ''Jane Doe''))]]" None Undefined]
    transformer_total_length_preserving [of "[]" None Undefined "[Obj [], Null]" None Undefined]
  by (auto simp: company_fallbacks_def person_fallbacks_def js_def)

text \<open>
  An array with a \<open>null\<close> entry gives no record list, and an entry without a ticker gives
  a record whose ticker is \<open>null\<close>.
\<close>

theorem null_entry_counterexample:
  "company_transformedResults
     \<lparr>companies = Some [Obj [(''name'', Str (js ''Acme Corp''))], Null],
      individuals = None, error = Undefined\<rparr> = Inl TypeError \<and>
   map_sum id (map ticker)
     (company_transformedResults
        \<lparr>companies = Some [Obj [(''name'', Str (js ''Acme Corp''))]],
         individuals = None, error = Undefined\<rparr>) = Inr [Null]"
  by (simp add: company_transformedResults_def company_record_def)

text \<open>
  Claim C3 (amended). For the response \<open>{companies: [{name: "Acme Corp", ticker: "ACM"}]}\<close>
  to a company search for \<open>Acme\<close>, the handler stores exactly one record, whose name is
  \<open>Acme Corp\<close>, whose title is \<open>Company\<close>, whose list of financial opportunities has
  length 3 and whose \<open>ceo_name\<close> field is \<open>null\<close>; the fallback \<open>Unknown\<close> is what
  \<open>getCEOName\<close> shows for the record in the CEO cell of its row.
\<close>

theorem acme_search_record:
  "length (companyResults acme_search) = 1 \<and>
   map name (companyResults acme_search) = [Str (js ''Acme Corp'')] \<and>
   map title (companyResults acme_search) = [Str (js ''Company'')] \<and>
   map (length \<circ> financial_opportunities) (companyResults acme_search) = [3] \<and>
   map ceo_name (companyResults acme_search) = [Null] \<and>
   map getCEOName (companyResults acme_search) = [Str (js ''Unknown'')]"
  by (simp add: acme_search_def acme_response_def handleCompanySearch_start_def setCompanyQuery_def
      initial_state_def handleCompanySearch_finish_def company_transformedResults_def
      company_record_def or_else_def getCEOName_def js_def is_ws_def trim_def)

text \<open>The \<open>ceo_name\<close> field of that record is not \<open>Unknown\<close>.\<close>

theorem acme_ceo_name_field_counterexample:
  "map ceo_name (companyResults acme_search) = [Null] \<and>
   map ceo_name (companyResults acme_search) \<noteq> [Str (js ''Unknown'')]"
  by (simp add: acme_search_def acme_response_def handleCompanySearch_start_def setCompanyQuery_def
      initial_state_def handleCompanySearch_finish_def company_transformedResults_def
      company_record_def or_else_def js_def is_ws_def trim_def)

text \<open>
  Claim C4 (amended). The record of an individual entry does not depend on the entry's
  \<open>linkedin_note\<close>: two entries that agree on every other property give the same record.
  It does depend on \<open>estimated_net_worth\<close>, which the record copies, with the fallback
  \<open>Confidential\<close> when the entry's value is absent or falsy.
\<close>

theorem person_record_ignores_linkedin_note:
  assumes "nullish e1 \<longleftrightarrow> nullish e2"
      and "\<forall>k. k \<noteq> ''linkedin_note'' \<longrightarrow> property e1 k = property e2 k"
  shows "person_record e1 = person_record e2 \<and>
         (\<forall>r. person_record e1 = Inr r \<longrightarrow>
            estimated_net_worth r =
              or_else (property e1 ''estimated_net_worth'') (Str (js ''Confidential'')))"
  using assms by (auto simp: person_record_def)

theorem person_record_ignores_linkedin_note_witness:
  "person_record (Obj [(''name'', Str (js ''Jane Doe'')), (''linkedin_note'', Str (js ''private''))]) =
   person_record (Obj [(''name'', Str (js ''Jane Doe''))])"
  using person_record_ignores_linkedin_note
    [of "Obj [(''name'', Str (js ''Jane Doe'')), (''linkedin_note'', Str (js ''private''))]"
        "Obj [(''name'', Str (js ''Jane Doe''))]"]
  by simp

text \<open>Two entries that differ in \<open>estimated_net_worth\<close> only give different records.\<close>

theorem person_record_net_worth_counterexample:
  "person_record
     (Obj [(''name'', Str (js ''Jane Doe'')), (''estimated_net_worth'', Str (js ''5M''))]) \<noteq>
   person_record
     (Obj [(''name'', Str (js ''Jane Doe'')), (''estimated_net_worth'', Str (js ''9M''))])"
  by (simp add: person_record_def or_else_def js_def)

section \<open>Responses that arrive out of order\<close>







section \<open>The rows and the expansion index\<close>

lemma truthy_or_else_Null: "truthy (or_else x Null) \<longleftrightarrow> or_else x Null \<noteq> Null"
  by (cases "truthy x") (auto simp: or_else_def)


lemma company_row_of_Inr:
  assumes "company_row_of idx (j, r) = Inr row"
  shows "row_expanded row = (idx = Some j)"
    and "row_onClick row = (if idx = Some j then None else Some j)"
    and "row_has_errors row =
           (truthy (edgar_status r) \<or> truthy (linkedin_status r) \<or> truthy (companyresearch_status r))"
    and "row_ceo row = getCEOName r"
  using assms
  by (auto simp: company_row_of_def Let_def or_else_def split: if_splits sum.splits)

lemma company_row_of_collapsed: "idx \<noteq> Some j \<Longrightarrow> \<exists>row. company_row_of idx (j, r) = Inr row"
  by (simp add: company_row_of_def Let_def)

lemma renderCompanyRows_Inr:
  assumes "renderCompanyRows st = Inr rows"
  shows "length rows = length (company_rows_shown st)"
    and "j < length rows \<Longrightarrow>
           company_row_of (expandedCompanyIndex st) (j, company_rows_shown st ! j) = Inr (rows ! j)"
proof -
  from assms have fe: "forEach_push (company_row_of (expandedCompanyIndex st))
      (enumerate 0 (company_rows_shown st)) = Inr rows"
    by (simp add: renderCompanyRows_def company_rows_shown_def)
  from forEach_push_Inr [OF fe] show len: "length rows = length (company_rows_shown st)"
    by simp
  assume "j < length rows"
  with len forEach_push_Inr [OF fe]
  show "company_row_of (expandedCompanyIndex st) (j, company_rows_shown st ! j) = Inr (rows ! j)"
    by (auto simp: nth_enumerate_eq)
qed

lemma row_expanded_iff:
  "renderCompanyRows st = Inr rows \<Longrightarrow> j < length rows \<Longrightarrow>
     row_expanded (rows ! j) \<longleftrightarrow> expandedCompanyIndex st = Some j"
  using renderCompanyRows_Inr(2) company_row_of_Inr(1) by blast

lemma renderCompanyRows_collapsed:
  assumes "\<forall>k. expandedCompanyIndex st = Some k \<longrightarrow> length (company_rows_shown st) \<le> k"
  shows "\<exists>rows. renderCompanyRows st = Inr rows"
proof -
  have "\<forall>x\<in>set (enumerate 0 (company_rows_shown st)).
          \<exists>y. company_row_of (expandedCompanyIndex st) x = Inr y"
  proof
    fix x assume "x \<in> set (enumerate 0 (company_rows_shown st))"
    then have "fst x < length (company_rows_shown st)"
      by (simp add: in_set_enumerate_eq)
    with assms have "expandedCompanyIndex st \<noteq> Some (fst x)" by auto
    from company_row_of_collapsed [OF this, of "snd x"]
    show "\<exists>y. company_row_of (expandedCompanyIndex st) x = Inr y" by simp
  qed
  from forEach_push_total [OF this] show ?thesis
    by (simp add: renderCompanyRows_def company_rows_shown_def)
qed

lemma click_company_row_index:
  "renderCompanyRows st = Inr rows \<Longrightarrow> i < length rows \<Longrightarrow>
     expandedCompanyIndex (click_company_row i st) =
       (if expandedCompanyIndex st = Some i then None else Some i)"
  using renderCompanyRows_Inr(2) [of st rows i] company_row_of_Inr(2)
  by (simp add: click_company_row_def)

lemma click_company_row_results [simp]:
  "companyResults (click_company_row i st) = companyResults st"
  by (simp add: click_company_row_def split: sum.splits)

lemma company_rows_shown_click [simp]:
  "company_rows_shown (click_company_row i st) = company_rows_shown st"
  by (simp add: company_rows_shown_def)

lemma finish_keeps_index:
  "expandedCompanyIndex (handleCompanySearch_finish res st) = expandedCompanyIndex st"
  by (simp add: handleCompanySearch_finish_def split: fetch_result.splits sum.splits)

lemma start_keeps_index:
  "expandedCompanyIndex (fst (handleCompanySearch_start st)) = expandedCompanyIndex st"
  by (simp add: handleCompanySearch_start_def)

text \<open>
  Claim C2 (amended). A company search leaves the expansion index as it was, also when
  it replaces the result list, so the index can point past the end of the new list. The
  rows never use it as a subscript: a row is drawn expanded exactly when its own index
  equals the expansion index, and with an index past the end of the results the rows are
  drawn with none of them expanded.
\<close>

theorem search_keeps_expansion_index:
  "expandedCompanyIndex (handleCompanySearch_finish res st) = expandedCompanyIndex st \<and>
   expandedCompanyIndex (fst (handleCompanySearch_start st)) = expandedCompanyIndex st \<and>
   (\<forall>rows. renderCompanyRows st = Inr rows \<longrightarrow>
      length rows \<le> length (companyResults st) \<and>
      (\<forall>j<length rows. row_expanded (rows ! j) \<longleftrightarrow> expandedCompanyIndex st = Some j)) \<and>
   ((\<forall>k. expandedCompanyIndex st = Some k \<longrightarrow> length (companyResults st) \<le> k) \<longrightarrow>
      (\<exists>rows. renderCompanyRows st = Inr rows \<and> (\<forall>j<length rows. \<not> row_expanded (rows ! j))))"
proof (intro conjI allI impI)
  show "expandedCompanyIndex (handleCompanySearch_finish res st) = expandedCompanyIndex st"
    by (rule finish_keeps_index)
  show "expandedCompanyIndex (fst (handleCompanySearch_start st)) = expandedCompanyIndex st"
    by (rule start_keeps_index)
next
  fix rows assume r: "renderCompanyRows st = Inr rows"
  have "length (company_rows_shown st) \<le> length (companyResults st)"
    by (simp add: company_rows_shown_def)
  with renderCompanyRows_Inr(1) [OF r] show "length rows \<le> length (companyResults st)" by simp
  fix j assume "j < length rows"
  with r show "row_expanded (rows ! j) \<longleftrightarrow> expandedCompanyIndex st = Some j"
    by (rule row_expanded_iff)
next
  assume past: "\<forall>k. expandedCompanyIndex st = Some k \<longrightarrow> length (companyResults st) \<le> k"
  have le: "length (company_rows_shown st) \<le> length (companyResults st)"
    by (simp add: company_rows_shown_def)
  with past have past': "\<forall>k. expandedCompanyIndex st = Some k \<longrightarrow> length (company_rows_shown st) \<le> k"
    by (meson le_trans)
  from renderCompanyRows_collapsed [OF this] obtain rows where r: "renderCompanyRows st = Inr rows" ..
  have "\<forall>j<length rows. \<not> row_expanded (rows ! j)"
  proof (intro allI impI)
    fix j assume j: "j < length rows"
    with renderCompanyRows_Inr(1) [OF r] past' have "expandedCompanyIndex st \<noteq> Some j" by auto
    with row_expanded_iff [OF r j] show "\<not> row_expanded (rows ! j)" by simp
  qed
  with r show "\<exists>rows. renderCompanyRows st = Inr rows \<and> (\<forall>j<length rows. \<not> row_expanded (rows ! j))"
    by blast
qed

lemmas scenario_defs = three_companies_shown_def named_companies_def
  handleCompanySearch_finish_def click_company_row_def renderCompanyRows_def
  company_row_of_def company_transformedResults_def company_record_def or_else_def
  initial_state_def enumerate_eq_zip company_profile_expanded_def renderStatusMessage_def

theorem search_keeps_expansion_index_witness:
  "expandedCompanyIndex three_then_one =
     expandedCompanyIndex (click_company_row 2 three_companies_shown) \<and>
   (\<exists>rows. renderCompanyRows three_then_one = Inr rows \<and>
      (\<forall>j<length rows. \<not> row_expanded (rows ! j)))"
proof -
  have past: "\<forall>k. expandedCompanyIndex three_then_one = Some k \<longrightarrow>
      length (companyResults three_then_one) \<le> k"
    by (simp add: three_then_one_def scenario_defs)
  from search_keeps_expansion_index [of "Resolved True (named_companies [''Delta''])"
      "click_company_row 2 three_companies_shown"]
    search_keeps_expansion_index [of Rejected three_then_one] past
  show ?thesis
    by (simp add: three_then_one_def [symmetric])
qed

text \<open>
  After a search with three results, a click on the third row and a search with one
  result, the expansion index is 2 and the result list has one row.
\<close>

theorem stale_expansion_index_counterexample:
  "expandedCompanyIndex three_then_one = Some 2 \<and> length (companyResults three_then_one) = 1"
  by (simp add: three_then_one_def three_companies_shown_def named_companies_def
      handleCompanySearch_finish_def click_company_row_def renderCompanyRows_def
      company_row_of_def company_transformedResults_def company_record_def or_else_def
      initial_state_def enumerate_eq_zip)

text \<open>
  Claim C9. Whenever the rows are drawn, at most one of them is expanded. A click on the
  expanded row leaves no row expanded; a click on a row that is not expanded and then a
  second click on it leaves no row expanded; and for distinct rows \<open>a\<close> and \<open>b\<close>, a click
  on \<open>a\<close> and then on \<open>b\<close> leaves \<open>b\<close> expanded and no other row. (A click needs the rows
  it is made on to have been drawn.)
\<close>

theorem expansion_toggle:
  assumes "renderCompanyRows st = Inr rows"
  shows "(\<forall>j<length rows. \<forall>k<length rows.
            row_expanded (rows ! j) \<and> row_expanded (rows ! k) \<longrightarrow> j = k) \<and>
         (\<forall>i<length rows. expandedCompanyIndex st = Some i \<longrightarrow>
            expandedCompanyIndex (click_company_row i st) = None) \<and>
         (\<forall>i<length rows. \<forall>rows'. expandedCompanyIndex st \<noteq> Some i \<and>
            renderCompanyRows (click_company_row i st) = Inr rows' \<longrightarrow>
            row_expanded (rows' ! i) \<and>
            expandedCompanyIndex (click_company_row i (click_company_row i st)) = None) \<and>
         (\<forall>a<length rows. \<forall>b<length rows. \<forall>rows' rows''. a \<noteq> b \<and>
            renderCompanyRows (click_company_row a st) = Inr rows' \<and>
            renderCompanyRows (click_company_row b (click_company_row a st)) = Inr rows'' \<longrightarrow>
            expandedCompanyIndex (click_company_row b (click_company_row a st)) = Some b \<and>
            (\<forall>j<length rows''. row_expanded (rows'' ! j) \<longleftrightarrow> j = b))"
proof (intro conjI allI impI)
  fix j k assume "j < length rows" "k < length rows"
    and "row_expanded (rows ! j) \<and> row_expanded (rows ! k)"
  with row_expanded_iff [OF assms] show "j = k" by auto
next
  fix i assume "i < length rows" "expandedCompanyIndex st = Some i"
  with click_company_row_index [OF assms] show "expandedCompanyIndex (click_company_row i st) = None"
    by simp
next
  fix i rows' assume i: "i < length rows"
    and h: "expandedCompanyIndex st \<noteq> Some i \<and> renderCompanyRows (click_company_row i st) = Inr rows'"
  from h have r': "renderCompanyRows (click_company_row i st) = Inr rows'" by simp
  from renderCompanyRows_Inr(1) [OF assms] renderCompanyRows_Inr(1) [OF r'] i
  have i': "i < length rows'" by simp
  from click_company_row_index [OF assms i] h
  have idx: "expandedCompanyIndex (click_company_row i st) = Some i" by simp
  with row_expanded_iff [OF r' i'] show "row_expanded (rows' ! i)" by simp
  from click_company_row_index [OF r' i'] idx
  show "expandedCompanyIndex (click_company_row i (click_company_row i st)) = None" by simp
next
  fix a b rows' rows'' assume a: "a < length rows" and b: "b < length rows"
    and h: "a \<noteq> b \<and> renderCompanyRows (click_company_row a st) = Inr rows' \<and>
            renderCompanyRows (click_company_row b (click_company_row a st)) = Inr rows''"
  from h have r': "renderCompanyRows (click_company_row a st) = Inr rows'"
    and r'': "renderCompanyRows (click_company_row b (click_company_row a st)) = Inr rows''"
    and ab: "a \<noteq> b" by simp_all
  from renderCompanyRows_Inr(1) [OF assms] renderCompanyRows_Inr(1) [OF r'] b
  have b': "b < length rows'" by simp
  from click_company_row_index [OF assms a] ab
  have "expandedCompanyIndex (click_company_row a st) \<noteq> Some b" by auto
  with click_company_row_index [OF r' b']
  show idx: "expandedCompanyIndex (click_company_row b (click_company_row a st)) = Some b" by simp
  fix j assume "j < length rows''"
  from row_expanded_iff [OF r'' this] idx show "row_expanded (rows'' ! j) \<longleftrightarrow> j = b" by auto
qed

theorem expansion_toggle_witness:
  "expandedCompanyIndex (click_company_row 1 (click_company_row 0 three_companies_shown)) = Some 1 \<and>
   expandedCompanyIndex (click_company_row 0 (click_company_row 0 three_companies_shown)) = None"
proof -
  have none: "\<forall>k. expandedCompanyIndex three_companies_shown = Some k \<longrightarrow>
      length (company_rows_shown three_companies_shown) \<le> k"
    by (simp add: three_companies_shown_def finish_keeps_index initial_state_def)
  from renderCompanyRows_collapsed [OF none]
  obtain rows where r: "renderCompanyRows three_companies_shown = Inr rows" ..
  have "length (company_rows_shown three_companies_shown) = 3"
    by (simp add: company_rows_shown_def scenario_defs)
  with renderCompanyRows_Inr(1) [OF r] have len: "length rows = 3" by simp
  have idx: "expandedCompanyIndex three_companies_shown \<noteq> Some 0"
    by (simp add: three_companies_shown_def finish_keeps_index initial_state_def)
  obtain rows' where r': "renderCompanyRows (click_company_row 0 three_companies_shown) = Inr rows'"
    by (simp add: scenario_defs)
  obtain rows'' where r'': "renderCompanyRows
      (click_company_row 1 (click_company_row 0 three_companies_shown)) = Inr rows''"
    by (simp add: scenario_defs)
  from expansion_toggle [OF r] len idx r' r'' show ?thesis
    by (auto simp: numeral_3_eq_3)
qed

lemma company_record_statuses:
  assumes "company_record e = Inr r"
  shows "truthy (edgar_status r) \<longleftrightarrow> edgar_status r \<noteq> Null"
    and "truthy (linkedin_status r) \<longleftrightarrow> linkedin_status r \<noteq> Null"
    and "truthy (companyresearch_status r) \<longleftrightarrow> companyresearch_status r \<noteq> Null"
  using assms
  by (auto simp: company_record_def truthy_or_else_Null split: if_splits)

lemma row_has_errors_iff:
  assumes "company_record e = Inr r" and "company_row_of idx (i, r) = Inr row"
  shows "row_has_errors row \<longleftrightarrow>
           edgar_status r \<noteq> Null \<or> linkedin_status r \<noteq> Null \<or> companyresearch_status r \<noteq> Null"
  using company_row_of_Inr(3) [OF assms(2)] company_record_statuses [OF assms(1)]
  by simp

lemma company_results_records:
  assumes "company_transformedResults d = Inr rs" and "r \<in> set rs"
  shows "\<exists>e. company_record e = Inr r"
proof (cases "companies d")
  case None
  with assms show ?thesis by (simp add: company_transformedResults_def)
next
  case (Some cs)
  show ?thesis
  proof (cases "cs = []")
    case True
    with Some assms show ?thesis by (simp add: company_transformedResults_def)
  next
    case False
    with Some assms have fe: "forEach_push company_record cs = Inr rs"
      by (simp add: company_transformedResults_def)
    from assms(2) obtain i where "i < length rs" "rs ! i = r"
      by (auto simp: in_set_conv_nth)
    with forEach_push_Inr [OF fe] have "company_record (cs ! i) = Inr r" by auto
    then show ?thesis ..
  qed
qed

lemma company_record_title: "company_record e = Inr r \<Longrightarrow> title r = Str (js ''Company'')"
  by (auto simp: company_record_def split: if_splits)

lemma company_results_all_shown:
  assumes "company_transformedResults d = Inr (companyResults st)"
  shows "company_rows_shown st = companyResults st"
  unfolding company_rows_shown_def
  using company_results_records [OF assms] company_record_title
  by (intro filter_True) blast

text \<open>
  Claim C10. For every company record of the results, the row shows the error indicator
  (the class \<open>has-errors\<close> and the warning sign) if and only if at least one of
  \<open>edgar_status\<close>, \<open>linkedin_status\<close> and \<open>companyresearch_status\<close> is not \<open>null\<close>. The
  keyword test of \<open>renderStatusMessage\<close> has no part in it: a status that the test
  classifies as a warning shows the indicator all the same.
\<close>

theorem has_errors_iff_some_status:
  assumes "company_transformedResults d = Inr (companyResults st)"
      and "renderCompanyRows st = Inr rows"
  shows "length rows = length (companyResults st) \<and>
         (\<forall>j<length rows.
            row_has_errors (rows ! j) \<longleftrightarrow>
              edgar_status (companyResults st ! j) \<noteq> Null \<or>
              linkedin_status (companyResults st ! j) \<noteq> Null \<or>
              companyresearch_status (companyResults st ! j) \<noteq> Null)"
proof (intro conjI allI impI)
  from renderCompanyRows_Inr(1) [OF assms(2)] company_results_all_shown [OF assms(1)]
  show len: "length rows = length (companyResults st)" by simp
  fix j assume j: "j < length rows"
  with len have "companyResults st ! j \<in> set (companyResults st)" by simp
  from company_results_records [OF assms(1) this]
  obtain e where e: "company_record e = Inr (companyResults st ! j)" ..
  from renderCompanyRows_Inr(2) [OF assms(2) j] company_results_all_shown [OF assms(1)]
  have "company_row_of (expandedCompanyIndex st) (j, companyResults st ! j) = Inr (rows ! j)"
    by simp
  from company_row_of_Inr(3) [OF this] company_record_statuses [OF e]
  show "row_has_errors (rows ! j) \<longleftrightarrow>
          edgar_status (companyResults st ! j) \<noteq> Null \<or>
          linkedin_status (companyResults st ! j) \<noteq> Null \<or>
          companyresearch_status (companyResults st ! j) \<noteq> Null"
    by simp
qed

lemmas shown_defs = handleCompanySearch_finish_def renderCompanyRows_def
  company_row_of_def company_transformedResults_def company_record_def or_else_def
  initial_state_def enumerate_eq_zip

theorem has_errors_iff_some_status_witness:
  "(\<exists>rows. renderCompanyRows rate_limited_shown = Inr rows \<and> length rows = 2 \<and>
      row_has_errors (rows ! 0) \<and> \<not> row_has_errors (rows ! 1)) \<and>
   map edgar_status (companyResults rate_limited_shown) = [Str (js ''Rate limited''), Null] \<and>
   map_sum id (map_option error_class)
     (renderStatusMessage (Str (js ''Rate limited'')) (js ''SEC EDGAR'')) = Inr (Some False)"
proof -
  have d: "company_transformedResults
      \<lparr>companies = Some [Obj [(''name'', Str (js ''Acme Corp'')),
                                  (''edgar_status'', Str (js ''Rate limited''))],
                             Obj [(''name'', Str (js ''Beta Inc''))]],
           individuals = None, error = Undefined\<rparr> = Inr (companyResults rate_limited_shown)"
    by (simp add: rate_limited_shown_def shown_defs)
  obtain rows where r: "renderCompanyRows rate_limited_shown = Inr rows"
    by (simp add: rate_limited_shown_def shown_defs)
  have n: "length (companyResults rate_limited_shown) = 2"
    by (simp add: rate_limited_shown_def shown_defs)
  have s0: "edgar_status (companyResults rate_limited_shown ! 0) = Str (js ''Rate limited'')"
    by (simp add: rate_limited_shown_def shown_defs)
  have s1: "edgar_status (companyResults rate_limited_shown ! 1) = Null"
    "linkedin_status (companyResults rate_limited_shown ! 1) = Null"
    "companyresearch_status (companyResults rate_limited_shown ! 1) = Null"
    by (simp_all add: rate_limited_shown_def shown_defs)
  have s: "map edgar_status (companyResults rate_limited_shown) = [Str (js ''Rate limited''), Null]"
    by (simp add: rate_limited_shown_def shown_defs)
  have w: "\<not> isError (js ''Rate limited'')"
    by (simp add: isError_def toLowerCase_def js_def)
  from has_errors_iff_some_status [OF d r] n have len: "length rows = 2"
    and iff: "\<forall>j<2. row_has_errors (rows ! j) \<longleftrightarrow>
              edgar_status (companyResults rate_limited_shown ! j) \<noteq> Null \<or>
              linkedin_status (companyResults rate_limited_shown ! j) \<noteq> Null \<or>
              companyresearch_status (companyResults rate_limited_shown ! j) \<noteq> Null"
    by simp_all
  from iff s0 have e0: "row_has_errors (rows ! 0)" by simp
  from iff s1 have e1: "\<not> row_has_errors (rows ! 1)" by simp
  from r len e0 e1 have "\<exists>rows. renderCompanyRows rate_limited_shown = Inr rows \<and> length rows = 2 \<and>
      row_has_errors (rows ! 0) \<and> \<not> row_has_errors (rows ! 1)" by blast
  moreover from w have "map_sum id (map_option error_class)
     (renderStatusMessage (Str (js ''Rate limited'')) (js ''SEC EDGAR'')) = Inr (Some False)"
    by (simp add: renderStatusMessage_def)
  ultimately show ?thesis using s by simp
qed

section \<open>The financial statements\<close>










section \<open>The report text\<close>

lemma split_from_not_Nil [simp]: "split_from cur s \<noteq> []"
  by (induction s arbitrary: cur) auto

lemma join_lines_Cons: "ls \<noteq> [] \<Longrightarrow> join_lines (l # ls) = l @ newline # join_lines ls"
  by (cases ls) simp_all

lemma join_split_from: "join_lines (split_from cur s) = cur @ s"
  by (induction s arbitrary: cur) (simp_all add: join_lines_Cons)

lemma split_from_no_newline:
  "newline \<notin> set cur \<Longrightarrow> \<forall>l\<in>set (split_from cur s). newline \<notin> set l"
proof (induction s arbitrary: cur)
  case Nil
  then show ?case by simp
next
  case (Cons c s)
  show ?case
  proof (cases "c = newline")
    case True
    with Cons.prems Cons.IH [of "[]"] show ?thesis by simp
  next
    case False
    with Cons.prems Cons.IH [of "cur @ [c]"] show ?thesis by simp
  qed
qed

lemma startsWith_single: "startsWith l [c] \<longleftrightarrow> (l \<noteq> [] \<and> hd l = c)"
  by (cases l) simp_all

lemma rendered_report_lines:
  "rendered_children (map report_line ls) =
     map (\<lambda>l. if startsWith l [bullet] then BulletPoint l else Paragraph l)
       (filter (\<lambda>l. \<not> list_all is_ws l) ls)"
  by (induction ls) (simp_all add: report_line_def trim_empty_iff)

lemma report_text_elements:
  "\<exists>v. render_response_text (Str t) = Inr v \<and>
      message_elements v =
        map (\<lambda>l. if startsWith l [bullet] then BulletPoint l else Paragraph l)
          (filter (\<lambda>l. \<not> list_all is_ws l) (split_lines t))"
proof (cases "t = []")
  case True
  then show ?thesis
    by (simp add: render_response_text_def split_lines_def)
next
  case False
  then show ?thesis
    by (simp add: render_response_text_def rendered_report_lines)
qed

lemma point_one_lines:
  "split_lines point_one_text = [bullet # js '' Point one'', js ''Second paragraph'']"
  by (simp add: point_one_text_def split_lines_def js_def bullet_def newline_def)

lemma point_one_rendered:
  "render_response_text (Str point_one_text) =
     Inr (LlmMessage [BulletPoint (bullet # js '' Point one''), Paragraph (js ''Second paragraph'')])"
proof -
  have "point_one_text \<noteq> []"
    by (simp add: point_one_text_def)
  moreover have "trim (bullet # js '' Point one'') \<noteq> []" "trim (js ''Second paragraph'') \<noteq> []"
    by (simp_all add: trim_empty_iff js_def bullet_def is_ws_def)
  moreover have "\<not> startsWith (js ''Second paragraph'') [bullet]"
    by (simp add: js_def bullet_def)
  ultimately show ?thesis
    by (simp add: render_response_text_def point_one_lines report_line_def)
qed

lemma property_Str_truthy: "property v k = Str t \<Longrightarrow> truthy v"
  by (cases v) (auto split: if_splits)

lemma renderReport_elements:
  assumes "property reportData ''llm_response'' = Str t"
      and "property reportData ''data_sources'' = Arr ds"
  shows "\<exists>v. renderReport reportData = Inr (Some v) \<and>
           render_response_text (Str t) = Inr (response_text_of v)"
proof -
  from assms(1) have tr: "truthy reportData" by (rule property_Str_truthy)
  obtain x where x: "render_response_text (Str t) = Inr x"
    using report_text_elements [of t] by blast
  with tr assms show ?thesis
    by (simp add: renderReport_def)
qed

lemma point_one_report_rendered:
  "map_sum id (map_option (message_elements \<circ> response_text_of)) (renderReport point_one_report) =
     Inr (Some [BulletPoint (bullet # js '' Point one''), Paragraph (js ''Second paragraph'')])"
  by (simp add: renderReport_def point_one_report_def point_one_rendered)

text \<open>
  Claim C8. For every report text, the elements rendered from it are those of its lines,
  in the order of the lines: the text is split at the line breaks (joining the lines with
  line breaks gives the text back, and no line holds a line break), every line that is
  empty or holds white space only gives no element, every other line that begins with
  the bullet character gives a list item and every other line a paragraph, each with the
  line as its text. This holds of the response text alone and of the whole report that
  \<open>renderReport\<close> draws for a response whose data sources are an array. The text
  \<open>"\<bullet> Point one\nSecond paragraph"\<close> gives the list item \<open>\<bullet> Point one\<close> followed by
  the paragraph \<open>Second paragraph\<close>.
\<close>

theorem report_text_rendering:
  "(\<exists>v. render_response_text (Str t) = Inr v \<and>
      message_elements v =
        map (\<lambda>l. if l \<noteq> [] \<and> hd l = bullet then BulletPoint l else Paragraph l)
          (filter (\<lambda>l. \<not> list_all is_ws l) (split_lines t))) \<and>
   (property reportData ''llm_response'' = Str t \<and>
    property reportData ''data_sources'' = Arr ds \<longrightarrow>
      (\<exists>v. renderReport reportData = Inr (Some v) \<and>
         message_elements (response_text_of v) =
           map (\<lambda>l. if l \<noteq> [] \<and> hd l = bullet then BulletPoint l else Paragraph l)
             (filter (\<lambda>l. \<not> list_all is_ws l) (split_lines t)))) \<and>
   join_lines (split_lines t) = t \<and>
   (\<forall>l\<in>set (split_lines t). newline \<notin> set l) \<and>
   render_response_text (Str point_one_text) =
     Inr (LlmMessage [BulletPoint (bullet # js '' Point one''), Paragraph (js ''Second paragraph'')]) \<and>
   map_sum id (map_option (message_elements \<circ> response_text_of)) (renderReport point_one_report) =
     Inr (Some [BulletPoint (bullet # js '' Point one''), Paragraph (js ''Second paragraph'')])"
proof (intro conjI impI)
  show text_elements: "\<exists>v. render_response_text (Str t) = Inr v \<and>
      message_elements v =
        map (\<lambda>l. if l \<noteq> [] \<and> hd l = bullet then BulletPoint l else Paragraph l)
          (filter (\<lambda>l. \<not> list_all is_ws l) (split_lines t))"
    using report_text_elements [of t] by (simp add: startsWith_single)
  show "join_lines (split_lines t) = t"
    by (simp add: split_lines_def join_split_from)
  show "\<forall>l\<in>set (split_lines t). newline \<notin> set l"
    using split_from_no_newline [of "[]"] by (auto simp: split_lines_def)
  show "render_response_text (Str point_one_text) =
     Inr (LlmMessage [BulletPoint (bullet # js '' Point one''), Paragraph (js ''Second paragraph'')])"
    by (rule point_one_rendered)
  show "map_sum id (map_option (message_elements \<circ> response_text_of)) (renderReport point_one_report) =
     Inr (Some [BulletPoint (bullet # js '' Point one''), Paragraph (js ''Second paragraph'')])"
    by (rule point_one_report_rendered)
  assume "property reportData ''llm_response'' = Str t \<and>
    property reportData ''data_sources'' = Arr ds"
  then obtain v where v: "renderReport reportData = Inr (Some v)"
    and t: "render_response_text (Str t) = Inr (response_text_of v)"
    using renderReport_elements by blast
  from text_elements t have "message_elements (response_text_of v) =
      map (\<lambda>l. if l \<noteq> [] \<and> hd l = bullet then BulletPoint l else Paragraph l)
        (filter (\<lambda>l. \<not> list_all is_ws l) (split_lines t))"
    by simp
  with v show "\<exists>v. renderReport reportData = Inr (Some v) \<and>
         message_elements (response_text_of v) =
           map (\<lambda>l. if l \<noteq> [] \<and> hd l = bullet then BulletPoint l else Paragraph l)
             (filter (\<lambda>l. \<not> list_all is_ws l) (split_lines t))"
    by blast
qed

theorem report_text_rendering_witness:
  "(\<exists>v. renderReport point_one_report = Inr (Some v) \<and>
      message_elements (response_text_of v) =
        [BulletPoint (bullet # js '' Point one''), Paragraph (js ''Second paragraph'')]) \<and>
   split_lines point_one_text = [bullet # js '' Point one'', js ''Second paragraph''] \<and>
   newline \<notin> set (bullet # js '' Point one'') \<and> newline \<notin> set (js ''Second paragraph'')"
proof -
  have b: "\<not> list_all is_ws (bullet # js '' Point one'')" "\<not> list_all is_ws (js ''Second paragraph'')"
    by (simp_all add: js_def bullet_def is_ws_def)
  have p: "hd (js ''Second paragraph'') \<noteq> bullet"
    by (simp add: js_def bullet_def)
  have r: "property point_one_report ''llm_response'' = Str point_one_text"
    "property point_one_report ''data_sources'' = Arr [Str (js ''SEC'')]"
    by (simp_all add: point_one_report_def)
  from report_text_rendering [of point_one_text point_one_report "[Str (js ''SEC'')]"] b p r
  show ?thesis
    by (simp add: point_one_lines)
qed

end
